theory Spec2Isabelle
  imports Main "HOL-Library.Finite_Map"
begin

section \<open>JSON documents\<close>

text \<open>
  The commands of \<^verbatim>\<open>openag/cli/db/__init__.py\<close> handle CouchDB documents and a
  \<^verbatim>\<open>module.json\<close> manifest, all of them Python dictionaries obtained from JSON. A
  dictionary is a finite map, so that \<open>==\<close> on dictionaries is equality of maps (the order of
  the keys plays no role). JSON numbers are integers here.
\<close>

datatype json =
    JNull
  | JBool bool
  | JNum int
  | JStr string
  | JArr "json list"
  | JObj "(string, json) fmap"

type_synonym doc = "(string, json) fmap"

text \<open>The exceptions the commands can end with.\<close>

datatype error =
    KeyError string
  | TypeError
  | NameError string
  | IOError
  | ValueError
  | OSError
  | ResourceNotFound
  | ResourceConflict
  | ServerError
  | Invalid
  | ClickException string

section \<open>The outside world\<close>

text \<open>
  What \<^verbatim>\<open>json.load\<close> finds in a file: a JSON object, or text that is not JSON. (A
  manifest whose top level is not an object is not part of the model.)
\<close>

datatype file_content = JsonFile doc | NotJson

record filesystem =
  dirs :: "string list"
  files :: "(string, file_content) fmap"

text \<open>The effects a command has on its collaborators, in the order they happen.\<close>

datatype event =
    Subprocess "string list" string
  | OpenFile string
  | Mkdtemp string
  | Rmtree string
  | DbWrite string string doc
  | ConfigPut string string string
  | Sleep nat
  | GetOrCreate string
  | PushDesignDocuments
  | ReplicateGlobalDbs string
  | ReplicatePerFarmDbs string

text \<open>\<^verbatim>\<open>os.path.join\<close> on POSIX paths.\<close>

definition path_join :: "string \<Rightarrow> string \<Rightarrow> string" where
  "path_join a b =
     (if b \<noteq> [] \<and> hd b = CHR ''/'' then b
      else if a = [] \<or> last a = CHR ''/'' then a @ b
      else a @ ''/'' @ b)"

section \<open>update_record\<close>

text \<open>
  The collaborators of \<^verbatim>\<open>update_record\<close>: \<^verbatim>\<open>make_dir_name_from_url\<close> of
  \<^verbatim>\<open>openag.utils\<close> and the program started by \<^verbatim>\<open>subprocess.call\<close>, which
  gets its arguments and working directory, changes the file system as it likes and returns its
  exit status (or \<^verbatim>\<open>subprocess.call\<close> raises).
\<close>

record sync_env =
  make_dir_name_from_url :: "json \<Rightarrow> error + string"
  subprocess_call :: "string list \<Rightarrow> string \<Rightarrow> filesystem \<Rightarrow> (error + int) \<times> filesystem"
  FirmwareModuleType :: "doc \<Rightarrow> error + doc"
  FIRMWARE_MODULE_TYPE :: string
  mkdtemp_name :: "filesystem \<Rightarrow> string"
  next_rev :: "json option \<Rightarrow> doc \<Rightarrow> json"

text \<open>
  A database is the list of its documents by identifier (each identifier once, in the order
  \<^verbatim>\<open>for _id in db\<close> yields them); the server is the list of its databases by name.
\<close>

type_synonym database = "(string \<times> doc) list"

record world =
  fs :: filesystem
  dbs :: "(string \<times> database) list"
  trace :: "event list"

text \<open>\<^verbatim>\<open>with open(config_path) as f: info = json.load(f)\<close>\<close>

definition load_json :: "string \<Rightarrow> filesystem \<Rightarrow> error + doc" where
  "load_json p f =
     (case fmlookup (files f) p of
        None \<Rightarrow> Inl IOError
      | Some NotJson \<Rightarrow> Inl ValueError
      | Some (JsonFile info) \<Rightarrow> Inr info)"

text \<open>
  The part of \<^verbatim>\<open>update_record\<close> after the guards: clone, read the manifest, merge. The
  exit status of the clone is dropped, as in the source. \<^verbatim>\<open>subprocess.call\<close> raises
  \<^verbatim>\<open>TypeError\<close> for an argument that is not a string.
\<close>

definition clone_and_merge ::
  "sync_env \<Rightarrow> doc \<Rightarrow> string \<Rightarrow> json \<Rightarrow> json \<Rightarrow> world \<Rightarrow> (error + doc) \<times> world" where
  "clone_and_merge env obj temp_folder url branch w =
     (case make_dir_name_from_url env url of
        Inl e \<Rightarrow> (Inl e, w)
      | Inr dir_name \<Rightarrow>
          (case (branch, url) of
             (JStr branch_s, JStr url_s) \<Rightarrow>
               let argv = [''git'', ''clone'', ''-b'', branch_s, url_s, dir_name];
                   (status, fs1) = subprocess_call env argv temp_folder (fs w);
                   w1 = w\<lparr>fs := fs1, trace := trace w @ [Subprocess argv temp_folder]\<rparr>
               in (case status of
                     Inl e \<Rightarrow> (Inl e, w1)
                   | Inr _ \<Rightarrow>
                       let config_path = path_join temp_folder (path_join dir_name ''module.json'');
                           w2 = w1\<lparr>trace := trace w1 @ [OpenFile config_path]\<rparr>
                       in (case load_json config_path fs1 of
                             Inl e \<Rightarrow> (Inl e, w2)
                           | Inr info \<Rightarrow> (Inr (obj ++\<^sub>f info), w2)))
           | _ \<Rightarrow> (Inl TypeError, w)))"

definition update_record ::
  "sync_env \<Rightarrow> doc \<Rightarrow> string \<Rightarrow> world \<Rightarrow> (error + doc) \<times> world" where
  "update_record env obj temp_folder w =
     (case fmlookup obj ''repository'' of
        None \<Rightarrow> (Inr obj, w)
      | Some (JObj repo) \<Rightarrow>
          (case fmlookup repo ''type'' of
             None \<Rightarrow> (Inl (KeyError ''type''), w)
           | Some t \<Rightarrow>
               if t \<noteq> JStr ''git'' then (Inr obj, w)
               else (case fmlookup repo ''url'' of
                       None \<Rightarrow> (Inl (KeyError ''url''), w)
                     | Some url \<Rightarrow>
                         let branch = (case fmlookup repo ''branch'' of
                                         None \<Rightarrow> JStr ''master'' | Some b \<Rightarrow> b)
                         in clone_and_merge env obj temp_folder url branch w))
      | Some _ \<Rightarrow> (Inl TypeError, w))"

section \<open>The database server\<close>

text \<open>
  Modelled from the spec: the per-database operations of \<^verbatim>\<open>openag.couch.Server\<close>
  (contains-key, get, put), which are not part of the sources at hand. A put is accepted when the
  revision token of the document is the one stored (none for a new document) and is a conflict
  otherwise; the server then stores the document under the identifier of the request with a new
  revision token, which \<open>next_rev\<close> chooses.
\<close>

definition server_getitem :: "string \<Rightarrow> world \<Rightarrow> error + database" where
  "server_getitem db_name w =
     (case map_of (dbs w) db_name of None \<Rightarrow> Inl ResourceNotFound | Some db \<Rightarrow> Inr db)"

definition db_contains :: "database \<Rightarrow> string \<Rightarrow> bool" where
  "db_contains db item_id = (map_of db item_id \<noteq> None)"

definition db_getitem :: "database \<Rightarrow> string \<Rightarrow> error + doc" where
  "db_getitem db item_id =
     (case map_of db item_id of None \<Rightarrow> Inl ResourceNotFound | Some d \<Rightarrow> Inr d)"

definition stored_rev :: "database \<Rightarrow> string \<Rightarrow> json option" where
  "stored_rev db item_id =
     (case map_of db item_id of None \<Rightarrow> None | Some d \<Rightarrow> fmlookup d ''_rev'')"

definition db_setitem ::
  "sync_env \<Rightarrow> string \<Rightarrow> string \<Rightarrow> doc \<Rightarrow> world \<Rightarrow> (error + unit) \<times> world" where
  "db_setitem env db_name item_id content w =
     (let w1 = w\<lparr>trace := trace w @ [DbWrite db_name item_id content]\<rparr>
      in case map_of (dbs w) db_name of
           None \<Rightarrow> (Inl ResourceNotFound, w1)
         | Some db \<Rightarrow>
             if fmlookup content ''_rev'' \<noteq> stored_rev db item_id then (Inl ResourceConflict, w1)
             else
               let stored = fmupd ''_rev'' (next_rev env (stored_rev db item_id) content)
                              (fmupd ''_id'' (JStr item_id) content)
               in (Inr (), w1\<lparr>dbs := AList.update db_name (AList.update item_id stored db) (dbs w)\<rparr>))"

section \<open>load_fixture\<close>

text \<open>
  Modelled from the spec: \<^verbatim>\<open>check_for_local_server\<close> of the command-line utilities,
  which is not part of the sources at hand, ends the command with an error when no local server
  is selected.
\<close>

definition check_for_local_server :: "string option \<Rightarrow> error + unit" where
  "check_for_local_server local_url =
     (case local_url of
        None \<Rightarrow> Inl (ClickException ''No local server selected'')
      | Some u \<Rightarrow> if u = [] then Inl (ClickException ''No local server selected'') else Inr ())"

text \<open>The body of the inner loop: one item of the fixture, for the database \<open>db_name\<close>.\<close>

definition load_item :: "sync_env \<Rightarrow> string \<Rightarrow> doc \<Rightarrow> world \<Rightarrow> (error + unit) \<times> world" where
  "load_item env db_name item w =
     (case fmlookup item ''_id'' of
        None \<Rightarrow> (Inl (KeyError ''_id''), w)
      | Some (JStr item_id) \<Rightarrow>
          (case server_getitem db_name w of
             Inl e \<Rightarrow> (Inl e, w)
           | Inr db \<Rightarrow>
               if db_contains db item_id then
                 (case db_getitem db item_id of
                    Inl e \<Rightarrow> (Inl e, w)
                  | Inr old_item \<Rightarrow>
                      (case fmlookup old_item ''_rev'' of
                         None \<Rightarrow> (Inl (KeyError ''_rev''), w)
                       | Some r \<Rightarrow>
                           let item1 = fmupd ''_rev'' r item
                           in if item1 = old_item then (Inr (), w)
                              else db_setitem env db_name item_id item1 w))
               else db_setitem env db_name item_id item w)
      | Some _ \<Rightarrow> (Inl TypeError, w))"

fun load_items :: "sync_env \<Rightarrow> string \<Rightarrow> doc list \<Rightarrow> world \<Rightarrow> (error + unit) \<times> world" where
  "load_items env db_name [] w = (Inr (), w)"
| "load_items env db_name (item # items) w =
     (case load_item env db_name item w of
        (Inl e, w1) \<Rightarrow> (Inl e, w1)
      | (Inr _, w1) \<Rightarrow> load_items env db_name items w1)"

text \<open>
  The outer loop, over the pairs of the fixture. \<^verbatim>\<open>server[db_name]\<close> asks the server
  for the database and raises when there is none.
\<close>

fun load_dbs :: "sync_env \<Rightarrow> (string \<times> doc list) list \<Rightarrow> world \<Rightarrow> (error + unit) \<times> world" where
  "load_dbs env [] w = (Inr (), w)"
| "load_dbs env ((db_name, items) # rest) w =
     (case server_getitem db_name w of
        Inl e \<Rightarrow> (Inl e, w)
      | Inr _ \<Rightarrow>
          (case load_items env db_name items w of
             (Inl e, w1) \<Rightarrow> (Inl e, w1)
           | (Inr _, w1) \<Rightarrow> load_dbs env rest w1))"

definition load_fixture ::
  "sync_env \<Rightarrow> string option \<Rightarrow> (string \<times> doc list) list \<Rightarrow> world \<Rightarrow> (error + unit) \<times> world" where
  "load_fixture env local_url fixture w =
     (case check_for_local_server local_url of
        Inl e \<Rightarrow> (Inl e, w)
      | Inr _ \<Rightarrow> load_dbs env fixture w)"

section \<open>update_module_types\<close>

definition startswith_underscore :: "string \<Rightarrow> bool" where
  "startswith_underscore s = (case s of [] \<Rightarrow> False | c # _ \<Rightarrow> c = CHR ''_'')"

definition mkdtemp :: "sync_env \<Rightarrow> world \<Rightarrow> string \<times> world" where
  "mkdtemp env w =
     (let d = mkdtemp_name env (fs w)
      in (d, w\<lparr>fs := (fs w)\<lparr>dirs := d # dirs (fs w)\<rparr>, trace := trace w @ [Mkdtemp d]\<rparr>))"

definition under :: "string \<Rightarrow> string \<Rightarrow> bool" where
  "under d p = (p = d \<or> take (Suc (length d)) p = d @ ''/'')"

definition rmtree :: "string \<Rightarrow> world \<Rightarrow> (error + unit) \<times> world" where
  "rmtree d w =
     (let w1 = w\<lparr>trace := trace w @ [Rmtree d]\<rparr>
      in if d \<notin> set (dirs (fs w)) then (Inl OSError, w1)
         else (Inr (),
               w1\<lparr>fs := \<lparr>dirs = filter (\<lambda>p. \<not> under d p) (dirs (fs w)),
                         files = fmfilter (\<lambda>p. \<not> under d p) (files (fs w))\<rparr>\<rparr>))"

text \<open>The body of the loop, for one identifier of the database.\<close>

definition update_one :: "sync_env \<Rightarrow> string \<Rightarrow> string \<Rightarrow> world \<Rightarrow> (error + unit) \<times> world" where
  "update_one env temp_folder item_id w =
     (if startswith_underscore item_id then (Inr (), w)
      else
        (case server_getitem (FIRMWARE_MODULE_TYPE env) w of
           Inl e \<Rightarrow> (Inl e, w)
         | Inr db \<Rightarrow>
        (case db_getitem db item_id of
           Inl e \<Rightarrow> (Inl e, w)
         | Inr obj \<Rightarrow>
        (case FirmwareModuleType env obj of
           Inl e \<Rightarrow> (Inl e, w)
         | Inr validated \<Rightarrow>
        (case update_record env validated temp_folder w of
           (Inl e, w1) \<Rightarrow> (Inl e, w1)
         | (Inr new_obj, w1) \<Rightarrow>
        (case fmlookup obj ''_rev'' of
           None \<Rightarrow> (Inl (KeyError ''_rev''), w1)
         | Some r \<Rightarrow>
             let new_obj1 = fmupd ''_rev'' r new_obj
             in if new_obj1 \<noteq> obj
                then db_setitem env (FIRMWARE_MODULE_TYPE env) item_id new_obj1 w1
                else (Inr (), w1)))))))"

fun update_all :: "sync_env \<Rightarrow> string \<Rightarrow> string list \<Rightarrow> world \<Rightarrow> (error + unit) \<times> world" where
  "update_all env temp_folder [] w = (Inr (), w)"
| "update_all env temp_folder (item_id # ids) w =
     (case update_one env temp_folder item_id w of
        (Inl e, w1) \<Rightarrow> (Inl e, w1)
      | (Inr _, w1) \<Rightarrow> update_all env temp_folder ids w1)"

definition update_module_types :: "sync_env \<Rightarrow> world \<Rightarrow> (error + unit) \<times> world" where
  "update_module_types env w =
     (case server_getitem (FIRMWARE_MODULE_TYPE env) w of
        Inl e \<Rightarrow> (Inl e, w)
      | Inr db \<Rightarrow>
          let (temp_folder, w1) = mkdtemp env w
          in (case update_all env temp_folder (map fst db) w1 of
                (Inl e, w2) \<Rightarrow> (Inl e, w2)
              | (Inr _, w2) \<Rightarrow> rmtree temp_folder w2))"

section \<open>init\<close>

text \<open>
  The configuration store of the command line (\<^verbatim>\<open>config["local_server"]["url"]\<close> and
  the two settings of the cloud server); a setting that is not there reads as \<open>None\<close>.
\<close>

record config_store =
  local_server_url :: "string option"
  cloud_server_url :: "string option"
  cloud_server_farm_name :: "string option"

text \<open>
  The collaborators of \<^verbatim>\<open>init\<close>, over a server state \<open>'s\<close> that is theirs:
  \<^verbatim>\<open>generate_config\<close> and \<^verbatim>\<open>all_dbs\<close>, the two HTTP requests on a configuration
  parameter (the body or an exception for the GET, the status or an exception for the PUT), and
  the calls that create databases, push the design documents and set up replication.
\<close>

record 's init_env =
  generate_config :: "string option \<Rightarrow> (string \<times> (string \<times> string) list) list"
  all_dbs :: "string list"
  config_get :: "string \<Rightarrow> string \<Rightarrow> 's \<Rightarrow> error + string"
  config_put :: "string \<Rightarrow> string \<Rightarrow> string \<Rightarrow> 's \<Rightarrow> (error + int) \<times> 's"
  get_or_create :: "string \<Rightarrow> 's \<Rightarrow> (error + unit) \<times> 's"
  push_design_documents :: "'s \<Rightarrow> (error + unit) \<times> 's"
  replicate_global_dbs :: "string \<Rightarrow> config_store \<Rightarrow> 's \<Rightarrow> (error + unit) \<times> 's"
  replicate_per_farm_dbs :: "string \<Rightarrow> config_store \<Rightarrow> 's \<Rightarrow> (error + unit) \<times> 's"

record 's init_world =
  cfg :: config_store
  couch :: 's
  log :: "event list"

text \<open>\<^verbatim>\<open>str.strip()\<close>: white space is removed at both ends.\<close>

definition is_space :: "char \<Rightarrow> bool" where
  "is_space c = (c \<in> set [CHR '' '', CHR 0x09, CHR 0x0A, CHR 0x0B, CHR 0x0C, CHR 0x0D])"

definition strip :: "string \<Rightarrow> string" where
  "strip s = rev (dropWhile is_space (rev (dropWhile is_space s)))"

text \<open>\<^verbatim>\<open>'"{}"'.format(value.replace('"', '\\"'))\<close>\<close>

definition desired_val :: "string \<Rightarrow> string" where
  "desired_val v =
     [CHR 0x22] @ concat (map (\<lambda>c. if c = CHR 0x22 then [CHR 0x5C, CHR 0x22] else [c]) v)
       @ [CHR 0x22]"

text \<open>
  The body of the loop over the configuration items. \<^verbatim>\<open>ResourceNotFound\<close> from the GET
  is caught (the current value is then \<^verbatim>\<open>None\<close>), every other exception leaves the
  command. After a PUT whose status is not 200 the source builds the text of an exception from
  \<^verbatim>\<open>res.content\<close>, and \<^verbatim>\<open>res\<close> is a name that is bound nowhere, so that the
  command ends with \<^verbatim>\<open>NameError\<close> there.
\<close>

definition apply_config_item ::
  "'s init_env \<Rightarrow> string \<times> string \<times> string \<Rightarrow> 's init_world \<Rightarrow> (error + unit) \<times> 's init_world" where
  "apply_config_item env item w =
     (case item of (section, param, val) \<Rightarrow>
        (case (case config_get env section param (couch w) of
                 Inr body \<Rightarrow> Inr (Some (strip body))
               | Inl e \<Rightarrow> if e = ResourceNotFound then Inr None else Inl e) of
           Inl e \<Rightarrow> (Inl e, w)
         | Inr current_val \<Rightarrow>
             if current_val \<noteq> Some (desired_val val) then
               let (status, s1) = config_put env section param (desired_val val) (couch w);
                   w1 = w\<lparr>couch := s1, log := log w @ [ConfigPut section param (desired_val val)]\<rparr>
               in (case status of
                     Inl e \<Rightarrow> (Inl e, w1)
                   | Inr st \<Rightarrow>
                       if st \<noteq> 200 then (Inl (NameError ''res''), w1)
                       else (Inr (), w1\<lparr>log := log w1 @ [Sleep 1]\<rparr>))
             else (Inr (), w)))"

fun apply_config_items ::
  "'s init_env \<Rightarrow> (string \<times> string \<times> string) list \<Rightarrow> 's init_world \<Rightarrow> (error + unit) \<times> 's init_world" where
  "apply_config_items env [] w = (Inr (), w)"
| "apply_config_items env (item # items) w =
     (case apply_config_item env item w of
        (Inl e, w1) \<Rightarrow> (Inl e, w1)
      | (Inr _, w1) \<Rightarrow> apply_config_items env items w1)"

text \<open>\<^verbatim>\<open>for db_name in _dbs: server.get_or_create(db_name)\<close>\<close>

fun create_dbs :: "'s init_env \<Rightarrow> string list \<Rightarrow> 's init_world \<Rightarrow> (error + unit) \<times> 's init_world" where
  "create_dbs env [] w = (Inr (), w)"
| "create_dbs env (db_name # names) w =
     (let (r, s1) = get_or_create env db_name (couch w);
          w1 = w\<lparr>couch := s1, log := log w @ [GetOrCreate db_name]\<rparr>
      in case r of Inl e \<Rightarrow> (Inl e, w1) | Inr _ \<Rightarrow> create_dbs env names w1)"

text \<open>A string is true in a condition when it is there and not empty.\<close>

definition truthy :: "string option \<Rightarrow> bool" where
  "truthy u = (case u of None \<Rightarrow> False | Some s \<Rightarrow> s \<noteq> [])"

text \<open>The replication set-up at the end of \<^verbatim>\<open>init\<close>.\<close>

definition set_up_replication ::
  "'s init_env \<Rightarrow> string \<Rightarrow> 's init_world \<Rightarrow> (error + unit) \<times> 's init_world" where
  "set_up_replication env db_url w =
     (if truthy (cloud_server_url (cfg w)) then
        let (r, s1) = replicate_global_dbs env db_url (cfg w) (couch w);
            w1 = w\<lparr>couch := s1, log := log w @ [ReplicateGlobalDbs db_url]\<rparr>
        in (case r of
              Inl e \<Rightarrow> (Inl e, w1)
            | Inr _ \<Rightarrow>
                if truthy (cloud_server_farm_name (cfg w1)) then
                  let (r2, s2) = replicate_per_farm_dbs env db_url (cfg w1) (couch w1)
                  in (r2, w1\<lparr>couch := s2, log := log w1 @ [ReplicatePerFarmDbs db_url]\<rparr>)
                else (Inr (), w1))
      else (Inr (), w))"

definition already_initialized :: "string \<Rightarrow> string" where
  "already_initialized old_db_url =
     ''Local database '' @ [CHR 0x22] @ old_db_url @ [CHR 0x22] @
     '' already initialized. Switching local databases is not currently supported''"

definition init ::
  "'s init_env \<Rightarrow> string \<Rightarrow> string option \<Rightarrow> 's init_world \<Rightarrow> (error + unit) \<times> 's init_world" where
  "init env db_url api_url w =
     (let old_db_url = local_server_url (cfg w)
      in if truthy old_db_url \<and> old_db_url \<noteq> Some db_url
         then (Inl (ClickException (already_initialized (the old_db_url))), w)
         else
           let db_config = generate_config env api_url;
               config_items = concat (map (\<lambda>(section, vals).
                                map (\<lambda>(param, val). (section, param, val)) vals) db_config)
           in (case apply_config_items env config_items w of
                 (Inl e, w1) \<Rightarrow> (Inl e, w1)
               | (Inr _, w1) \<Rightarrow>
           (case create_dbs env (all_dbs env) w1 of
                 (Inl e, w2) \<Rightarrow> (Inl e, w2)
               | (Inr _, w2) \<Rightarrow>
           (let (r, s3) = push_design_documents env (couch w2);
                w3 = w2\<lparr>couch := s3, log := log w2 @ [PushDesignDocuments]\<rparr>
            in case r of
                 Inl e \<Rightarrow> (Inl e, w3)
               | Inr _ \<Rightarrow>
           (case set_up_replication env db_url w3 of
                 (Inl e, w4) \<Rightarrow> (Inl e, w4)
               | (Inr _, w4) \<Rightarrow>
                   (Inr (), w4\<lparr>cfg := (cfg w4)\<lparr>local_server_url := Some db_url\<rparr>\<rparr>))))))"

section \<open>Notions for the store\<close>

text \<open>
  The document stored under an identifier of a database; whether a database exists; and when an
  item of a fixture is settled in a store: its identifier is stored, and the stored record is
  the item with the stored revision. The identifiers of a list of items are distinct when no
  two items have the same \<^verbatim>\<open>_id\<close>.
\<close>

definition lookup_doc :: "world \<Rightarrow> string \<Rightarrow> string \<Rightarrow> doc option" where
  "lookup_doc w db_name item_id =
     (case map_of (dbs w) db_name of None \<Rightarrow> None | Some db \<Rightarrow> map_of db item_id)"

definition settled :: "string \<Rightarrow> doc \<Rightarrow> world \<Rightarrow> bool" where
  "settled db_name item w =
     (case fmlookup item ''_id'' of
        Some (JStr item_id) \<Rightarrow>
          (case lookup_doc w db_name item_id of
             None \<Rightarrow> False
           | Some old_item \<Rightarrow>
               (case fmlookup old_item ''_rev'' of
                  None \<Rightarrow> False
                | Some r \<Rightarrow> fmupd ''_rev'' r item = old_item))
      | _ \<Rightarrow> False)"

definition distinct_ids :: "doc list \<Rightarrow> bool" where
  "distinct_ids items = distinct (map (\<lambda>item. fmlookup item ''_id'') items)"

definition db_exists :: "world \<Rightarrow> string \<Rightarrow> bool" where
  "db_exists w db_name = (map_of (dbs w) db_name \<noteq> None)"

section \<open>Example inputs\<close>

text \<open>
  A world with an empty scratch area and no database, and collaborators under which every clone
  fails with status 128 and leaves the file system as it is.
\<close>

definition env0 :: sync_env where
  "env0 = \<lparr>make_dir_name_from_url = (\<lambda>u. Inr ''y''),
           subprocess_call = (\<lambda>argv cwd f. (Inr 128, f)),
           FirmwareModuleType = Inr,
           FIRMWARE_MODULE_TYPE = ''firmware_module_type'',
           mkdtemp_name = (\<lambda>f. ''/tmp/tmpA''),
           next_rev = (\<lambda>old d. JStr ''2-b'')\<rparr>"

definition w0 :: world where
  "w0 = \<lparr>fs = \<lparr>dirs = [], files = fmempty\<rparr>, dbs = [], trace = []\<rparr>"

definition svn_record :: doc where
  "svn_record = fmap_of_list [(''_id'', JStr ''m1''),
      (''repository'', JObj (fmap_of_list [(''type'', JStr ''svn''), (''url'', JStr ''https://x/y'')]))]"

definition untyped_record :: doc where
  "untyped_record = fmap_of_list [(''_id'', JStr ''m1''),
      (''repository'', JObj (fmap_of_list [(''url'', JStr ''https://x/y.git'')]))]"

text \<open>
  Records whose repository is not of type \<^verbatim>\<open>"git"\<close> because it has no type at all: a
  mapping with a URL and a branch only, and a repository given as a plain string.
\<close>

definition typeless_repository :: "(string, json) fmap" where
  "typeless_repository =
     fmap_of_list [(''url'', JStr ''https://x/y''), (''branch'', JStr ''trunk'')]"

definition typeless_record :: doc where
  "typeless_record = fmap_of_list [(''_id'', JStr ''m2''),
      (''repository'', JObj typeless_repository)]"

definition string_repository_record :: doc where
  "string_repository_record = fmap_of_list [(''_id'', JStr ''m3''),
      (''repository'', JStr ''https://x/y'')]"

definition git_record :: doc where
  "git_record = fmap_of_list [(''_id'', JStr ''m1''),
      (''repository'', JObj (fmap_of_list [(''type'', JStr ''git''), (''url'', JStr ''https://x/y.git'')]))]"

definition git_argv :: "string list" where
  "git_argv = [''git'', ''clone'', ''-b'', ''master'', ''https://x/y.git'', ''y'']"

definition manifest_v2 :: doc where
  "manifest_v2 = fmap_of_list [(''version'', JStr ''2.0'')]"

definition manifest_other_id :: doc where
  "manifest_other_id = fmap_of_list [(''_id'', JStr ''other''), (''_rev'', JStr ''9-z'')]"

text \<open>
  Worlds in which the scratch directory already holds \<^verbatim>\<open>y/module.json\<close>, left there by
  an earlier clone of the batch.
\<close>

definition w_stale :: world where
  "w_stale = \<lparr>fs = \<lparr>dirs = [''/tmp/t'', ''/tmp/t/y''],
                     files = fmap_of_list [(''/tmp/t/y/module.json'', JsonFile manifest_v2)]\<rparr>,
              dbs = [], trace = []\<rparr>"

definition w_other_id :: world where
  "w_other_id = \<lparr>fs = \<lparr>dirs = [''/tmp/t'', ''/tmp/t/y''],
                        files = fmap_of_list [(''/tmp/t/y/module.json'', JsonFile manifest_other_id)]\<rparr>,
                 dbs = [], trace = []\<rparr>"

text \<open>A server whose module-type database holds the record \<^verbatim>\<open>m1\<close> at revision \<^verbatim>\<open>1-a\<close>.\<close>

definition stored_svn :: doc where
  "stored_svn = fmupd ''_rev'' (JStr ''1-a'') svn_record"

definition w_store :: world where
  "w_store = \<lparr>fs = \<lparr>dirs = [], files = fmempty\<rparr>,
              dbs = [(''firmware_module_type'', [(''m1'', stored_svn)])], trace = []\<rparr>"

text \<open>A store with an empty database \<^verbatim>\<open>widgets\<close>, and fixtures for it.\<close>

definition widget_foo :: doc where
  "widget_foo = fmap_of_list [(''_id'', JStr ''a''), (''name'', JStr ''foo'')]"

definition widget_bar :: doc where
  "widget_bar = fmap_of_list [(''_id'', JStr ''a''), (''name'', JStr ''bar'')]"

definition fixture_one :: "(string \<times> doc list) list" where
  "fixture_one = [(''widgets'', [widget_foo])]"

definition fixture_dup :: "(string \<times> doc list) list" where
  "fixture_dup = [(''widgets'', [widget_foo, widget_bar])]"

definition w_widgets :: world where
  "w_widgets = \<lparr>fs = \<lparr>dirs = [], files = fmempty\<rparr>, dbs = [(''widgets'', [])], trace = []\<rparr>"

definition w_dup1 :: world where
  "w_dup1 = \<lparr>fs = \<lparr>dirs = [], files = fmempty\<rparr>,
     dbs = [(''widgets'', [(''a'', fmupd ''_rev'' (JStr ''2-b'') widget_bar)])],
     trace = [DbWrite ''widgets'' ''a'' widget_foo,
              DbWrite ''widgets'' ''a'' (fmupd ''_rev'' (JStr ''2-b'') widget_bar)]\<rparr>"

definition w_one1 :: world where
  "w_one1 = \<lparr>fs = \<lparr>dirs = [], files = fmempty\<rparr>,
     dbs = [(''widgets'', [(''a'', fmupd ''_rev'' (JStr ''2-b'') widget_foo)])],
     trace = [DbWrite ''widgets'' ''a'' widget_foo]\<rparr>"

definition fixture_rev :: "(string \<times> doc list) list" where
  "fixture_rev = [(''widgets'', [fmupd ''_rev'' (JStr ''1-a'') widget_foo])]"

text \<open>
  A server whose module-type database holds the git record \<^verbatim>\<open>m1\<close> at revision
  \<^verbatim>\<open>1-a\<close>.
\<close>

definition w_git :: world where
  "w_git = \<lparr>fs = \<lparr>dirs = [], files = fmempty\<rparr>,
            dbs = [(''firmware_module_type'', [(''m1'', fmupd ''_rev'' (JStr ''1-a'') git_record)])],
            trace = []\<rparr>"

text \<open>
  A server for \<^verbatim>\<open>init\<close> that keeps the bodies of its configuration parameters and
  answers every PUT with the given status or exception; two parameters are to be applied.
\<close>

type_synonym settings = "((string \<times> string) \<times> string) list"

definition example_env :: "(error + int) \<Rightarrow> settings init_env" where
  "example_env put_result =
     \<lparr>generate_config = (\<lambda>api_url. [(''httpd'', [(''bind_address'', ''0.0.0.0''), (''port'', ''5984'')])]),
      all_dbs = [''firmware_module_type''],
      config_get = (\<lambda>section param st.
         case map_of st (section, param) of None \<Rightarrow> Inl ResourceNotFound | Some body \<Rightarrow> Inr body),
      config_put = (\<lambda>section param body st.
         (put_result, case put_result of Inl e \<Rightarrow> st | Inr _ \<Rightarrow> ((section, param), body @ [CHR 0x0A]) # st)),
      get_or_create = (\<lambda>db_name st. (Inr (), st)),
      push_design_documents = (\<lambda>st. (Inr (), st)),
      replicate_global_dbs = (\<lambda>url c st. (Inr (), st)),
      replicate_per_farm_dbs = (\<lambda>url c st. (Inr (), st))\<rparr>"

definition iw0 :: "settings init_world" where
  "iw0 = \<lparr>cfg = \<lparr>local_server_url = None, cloud_server_url = None, cloud_server_farm_name = None\<rparr>,
          couch = [((''httpd'', ''port''), [CHR 0x22] @ ''5984'' @ [CHR 0x22, CHR 0x0A])],
          log = []\<rparr>"

definition iw_empty :: "settings init_world" where
  "iw_empty = \<lparr>cfg = \<lparr>local_server_url = None, cloud_server_url = None, cloud_server_farm_name = None\<rparr>,
          couch = [], log = []\<rparr>"

definition iw_other :: "settings init_world" where
  "iw_other = \<lparr>cfg = \<lparr>local_server_url = Some ''http://db.example:5984'', cloud_server_url = None,
                      cloud_server_farm_name = None\<rparr>,
          couch = [], log = []\<rparr>"

section \<open>Properties of update_record\<close>

text \<open>
  Claim C5, as the claim states it, fails: a repository that is a mapping without the key
  \<^verbatim>\<open>type\<close> has no type \<^verbatim>\<open>"git"\<close>, and \<^verbatim>\<open>update_record\<close> ends with
  \<^verbatim>\<open>KeyError\<close> on it; a repository that is a string makes it end with
  \<^verbatim>\<open>TypeError\<close>. In both cases the record is not returned.
\<close>

theorem passthrough_counterexample:
  "fmlookup typeless_record ''repository'' = Some (JObj typeless_repository) \<and>
   fmlookup typeless_repository ''type'' \<noteq> Some (JStr ''git'') \<and>
   update_record env0 typeless_record ''/tmp/t'' w0 = (Inl (KeyError ''type''), w0) \<and>
   fst (update_record env0 typeless_record ''/tmp/t'' w0) \<noteq> Inr typeless_record \<and>
   update_record env0 string_repository_record ''/tmp/t'' w0 = (Inl TypeError, w0) \<and>
   fst (update_record env0 string_repository_record ''/tmp/t'' w0) \<noteq> Inr string_repository_record"
  by (simp add: update_record_def typeless_record_def typeless_repository_def
      string_repository_record_def)

text \<open>
  Claim C5, amended. A record without a \<^verbatim>\<open>repository\<close> field, or whose repository is
  a mapping with a \<^verbatim>\<open>type\<close> key whose value is not \<^verbatim>\<open>"git"\<close>, is returned as it is,
  and the world is left as it was: the file system is the same and the trace has no new event
  (no clone, no file read).
\<close>

theorem update_record_passthrough:
  assumes "fmlookup obj ''repository'' = None \<or>
           (\<exists>repo t. fmlookup obj ''repository'' = Some (JObj repo) \<and>
                      fmlookup repo ''type'' = Some t \<and> t \<noteq> JStr ''git'')"
  shows "update_record env obj temp_folder w = (Inr obj, w)"
  using assms by (auto simp: update_record_def)

theorem update_record_passthrough_witness:
  "update_record env0 svn_record ''/tmp/t'' w0 = (Inr svn_record, w0)"
  using update_record_passthrough [of svn_record env0 "''/tmp/t''" w0]
  by (simp add: svn_record_def)

text \<open>
  Claim C10. A record whose repository is a mapping without the key \<^verbatim>\<open>type\<close>, or of
  type \<^verbatim>\<open>"git"\<close> without the key \<^verbatim>\<open>url\<close>, makes \<^verbatim>\<open>update_record\<close> end
  with a \<^verbatim>\<open>KeyError\<close> for that key: the record is not returned.
\<close>

theorem update_record_key_error:
  assumes "fmlookup obj ''repository'' = Some (JObj repo)"
    and "fmlookup repo ''type'' = None \<or>
         (fmlookup repo ''type'' = Some (JStr ''git'') \<and> fmlookup repo ''url'' = None)"
  shows "update_record env obj temp_folder w =
           (Inl (KeyError (if fmlookup repo ''type'' = None then ''type'' else ''url'')), w)"
  using assms by (auto simp: update_record_def)

theorem update_record_key_error_witness:
  "update_record env0 untyped_record ''/tmp/t'' w0 = (Inl (KeyError ''type''), w0)"
  using update_record_key_error
    [of untyped_record "fmap_of_list [(''url'', JStr ''https://x/y.git'')]" env0 "''/tmp/t''" w0]
  by (simp add: untyped_record_def)

text \<open>
  Claim C7, as the claim states it, fails: with a clone that ends with status 128 and leaves
  nothing behind, \<^verbatim>\<open>update_record\<close> goes on to open the manifest and ends with
  \<^verbatim>\<open>IOError\<close>; the record is not returned.
\<close>

theorem clone_failure_counterexample:
  "fst (subprocess_call env0 git_argv ''/tmp/t'' (fs w0)) = Inr 128 \<and>
   trace (snd (update_record env0 git_record ''/tmp/t'' w0)) =
     [Subprocess git_argv ''/tmp/t'', OpenFile ''/tmp/t/y/module.json''] \<and>
   fst (update_record env0 git_record ''/tmp/t'' w0) = Inl IOError \<and>
   fst (update_record env0 git_record ''/tmp/t'' w0) \<noteq> Inr git_record"
  by (simp add: update_record_def git_record_def clone_and_merge_def env0_def w0_def
      load_json_def path_join_def git_argv_def Let_def)

text \<open>
  Claim C7, amended. The exit status of the clone plays no role: whatever it is, the result of
  \<^verbatim>\<open>update_record\<close> on a git record is decided by reading \<^verbatim>\<open>module.json\<close> at
  the clone path afterwards. A failed read is raised to the caller, and a manifest found there
  is merged into the record.
\<close>

theorem update_record_ignores_clone_status:
  assumes "fmlookup obj ''repository'' = Some (JObj repo)"
    and "fmlookup repo ''type'' = Some (JStr ''git'')"
    and "fmlookup repo ''url'' = Some (JStr url)"
    and "(case fmlookup repo ''branch'' of None \<Rightarrow> JStr ''master'' | Some b \<Rightarrow> b) = JStr branch"
    and "make_dir_name_from_url env (JStr url) = Inr dir_name"
    and "subprocess_call env [''git'', ''clone'', ''-b'', branch, url, dir_name] temp_folder (fs w)
           = (Inr status, fs1)"
  shows "fst (update_record env obj temp_folder w) =
           (case load_json (path_join temp_folder (path_join dir_name ''module.json'')) fs1 of
              Inl e \<Rightarrow> Inl e
            | Inr info \<Rightarrow> Inr (obj ++\<^sub>f info))"
  using assms
  by (simp add: update_record_def clone_and_merge_def Let_def split: sum.splits)

theorem update_record_ignores_clone_status_witness:
  "fst (update_record env0 git_record ''/tmp/t'' w_stale) = Inr (git_record ++\<^sub>f manifest_v2)"
  using update_record_ignores_clone_status
    [of git_record "fmap_of_list [(''type'', JStr ''git''), (''url'', JStr ''https://x/y.git'')]"
        "''https://x/y.git''" "''master''" env0 "''y''" "''/tmp/t''" w_stale 128 "fs w_stale"]
  by (simp add: git_record_def env0_def w_stale_def load_json_def path_join_def manifest_v2_def)

text \<open>
  Claim C1, as the claim states it, fails: a manifest with the keys \<^verbatim>\<open>_id\<close> and
  \<^verbatim>\<open>_rev\<close> replaces the identity of the record \<^verbatim>\<open>m1\<close> and gives it a revision.
\<close>

theorem identity_override_counterexample:
  "fst (update_record env0 git_record ''/tmp/t'' w_other_id) =
     Inr (git_record ++\<^sub>f manifest_other_id) \<and>
   fmlookup git_record ''_id'' = Some (JStr ''m1'') \<and>
   fmlookup (git_record ++\<^sub>f manifest_other_id) ''_id'' = Some (JStr ''other'') \<and>
   fmlookup (git_record ++\<^sub>f manifest_other_id) ''_rev'' = Some (JStr ''9-z'')"
  by (simp add: update_record_def git_record_def clone_and_merge_def env0_def w_other_id_def
      load_json_def path_join_def manifest_other_id_def Let_def)

text \<open>
  Claim C1, amended. When \<^verbatim>\<open>update_record\<close> returns a record for a git repository, the
  manifest was read from the file opened last, and the output is the input overlaid with it:
  every key of the manifest, \<^verbatim>\<open>_id\<close> and \<^verbatim>\<open>_rev\<close> included, has the manifest's
  value, and every other key has the input's value. So the identity and the revision of the
  output are the input's when the manifest has no such key.
\<close>

theorem update_record_overlay:
  assumes "fmlookup obj ''repository'' = Some (JObj repo)"
    and "fmlookup repo ''type'' = Some (JStr ''git'')"
    and "update_record env obj temp_folder w = (Inr new_obj, w1)"
  shows "\<exists>p info. last (trace w1) = OpenFile p \<and> load_json p (fs w1) = Inr info \<and>
           new_obj = obj ++\<^sub>f info \<and>
           (\<forall>k. fmlookup new_obj k =
                  (if k |\<in>| fmdom info then fmlookup info k else fmlookup obj k))"
  using assms
  by (auto simp: update_record_def clone_and_merge_def Let_def
      split: option.splits sum.splits json.splits prod.splits)

theorem update_record_overlay_witness:
  "\<exists>p info. last (trace (snd (update_record env0 git_record ''/tmp/t'' w_stale))) = OpenFile p \<and>
      load_json p (fs (snd (update_record env0 git_record ''/tmp/t'' w_stale))) = Inr info \<and>
      git_record ++\<^sub>f manifest_v2 = git_record ++\<^sub>f info \<and>
      (\<forall>k. fmlookup (git_record ++\<^sub>f manifest_v2) k =
             (if k |\<in>| fmdom info then fmlookup info k else fmlookup git_record k))"
proof -
  have run: "update_record env0 git_record ''/tmp/t'' w_stale =
      (Inr (git_record ++\<^sub>f manifest_v2), snd (update_record env0 git_record ''/tmp/t'' w_stale))"
    by (simp add: update_record_def git_record_def clone_and_merge_def env0_def w_stale_def
        load_json_def path_join_def manifest_v2_def Let_def)
  show ?thesis
    using update_record_overlay
      [of git_record "fmap_of_list [(''type'', JStr ''git''), (''url'', JStr ''https://x/y.git'')]"
          env0 "''/tmp/t''" w_stale "git_record ++\<^sub>f manifest_v2"
          "snd (update_record env0 git_record ''/tmp/t'' w_stale)", OF _ _ run]
    by (simp add: git_record_def)
qed

section \<open>Properties of the compare-and-write loops\<close>

text \<open>
  Setting the stored revision in a record gives the stored record exactly when the two have the
  same content apart from the revision.
\<close>

lemma fmupd_eq_iff_fmdrop_eq:
  assumes "fmlookup old k = Some r"
  shows "(fmupd k r item = old) = (fmdrop k item = fmdrop k old)"
proof
  assume "fmupd k r item = old"
  then have "fmdrop k (fmupd k r item) = fmdrop k old" by simp
  then show "fmdrop k item = fmdrop k old" by (simp add: fmdrop_fmupd_same)
next
  assume eq: "fmdrop k item = fmdrop k old"
  show "fmupd k r item = old"
  proof (rule fmap_ext)
    fix x
    show "fmlookup (fmupd k r item) x = fmlookup old x"
    proof (cases "x = k")
      case True
      with assms show ?thesis by simp
    next
      case False
      have "fmlookup (fmdrop k item) x = fmlookup (fmdrop k old) x" using eq by simp
      with False show ?thesis by simp
    qed
  qed
qed

text \<open>
  Claim C2. In \<^verbatim>\<open>load_fixture\<close>, for an item whose identifier is stored: when the item
  and the stored record are equal apart from \<^verbatim>\<open>_rev\<close>, the world stays as it is (no
  write); and in every case either the world stays as it is, or exactly one write is issued
  and it is the item with the stored revision. In \<^verbatim>\<open>update_module_types\<close> the same
  holds for the record that \<^verbatim>\<open>update_record\<close> returns, against the world that
  \<^verbatim>\<open>update_record\<close> leaves.
\<close>

theorem unchanged_content_no_write:
  "(map_of (dbs w) db_name = Some db \<and> map_of db item_id = Some old_item \<and>
    fmlookup item ''_id'' = Some (JStr item_id) \<longrightarrow>
      (fmdrop ''_rev'' item = fmdrop ''_rev'' old_item \<longrightarrow> snd (load_item env db_name item w) = w) \<and>
      (snd (load_item env db_name item w) = w \<or>
       (\<exists>r. fmlookup old_item ''_rev'' = Some r \<and>
            trace (snd (load_item env db_name item w)) =
              trace w @ [DbWrite db_name item_id (fmupd ''_rev'' r item)]))) \<and>
   (\<not> startswith_underscore item_id \<and>
    map_of (dbs w) (FIRMWARE_MODULE_TYPE env) = Some db \<and> map_of db item_id = Some obj \<and>
    FirmwareModuleType env obj = Inr validated \<and>
    update_record env validated temp_folder w = (Inr new_obj, w1) \<longrightarrow>
      (fmdrop ''_rev'' new_obj = fmdrop ''_rev'' obj \<longrightarrow>
         snd (update_one env temp_folder item_id w) = w1) \<and>
      (snd (update_one env temp_folder item_id w) = w1 \<or>
       (\<exists>r. fmlookup obj ''_rev'' = Some r \<and>
            trace (snd (update_one env temp_folder item_id w)) =
              trace w1 @ [DbWrite (FIRMWARE_MODULE_TYPE env) item_id (fmupd ''_rev'' r new_obj)])))"
proof (intro conjI impI)
  assume a: "map_of (dbs w) db_name = Some db \<and> map_of db item_id = Some old_item \<and>
    fmlookup item ''_id'' = Some (JStr item_id)"
  assume "fmdrop ''_rev'' item = fmdrop ''_rev'' old_item"
  with a show "snd (load_item env db_name item w) = w"
    by (auto simp: load_item_def server_getitem_def db_contains_def db_getitem_def
        fmupd_eq_iff_fmdrop_eq split: option.splits)
next
  assume a: "map_of (dbs w) db_name = Some db \<and> map_of db item_id = Some old_item \<and>
    fmlookup item ''_id'' = Some (JStr item_id)"
  then show "snd (load_item env db_name item w) = w \<or>
       (\<exists>r. fmlookup old_item ''_rev'' = Some r \<and>
            trace (snd (load_item env db_name item w)) =
              trace w @ [DbWrite db_name item_id (fmupd ''_rev'' r item)])"
    by (auto simp: load_item_def server_getitem_def db_contains_def db_getitem_def
        db_setitem_def Let_def stored_rev_def split: option.splits)
next
  assume a: "\<not> startswith_underscore item_id \<and>
    map_of (dbs w) (FIRMWARE_MODULE_TYPE env) = Some db \<and> map_of db item_id = Some obj \<and>
    FirmwareModuleType env obj = Inr validated \<and>
    update_record env validated temp_folder w = (Inr new_obj, w1)"
  assume "fmdrop ''_rev'' new_obj = fmdrop ''_rev'' obj"
  with a show "snd (update_one env temp_folder item_id w) = w1"
    by (auto simp: update_one_def server_getitem_def db_getitem_def
        fmupd_eq_iff_fmdrop_eq split: option.splits)
next
  assume a: "\<not> startswith_underscore item_id \<and>
    map_of (dbs w) (FIRMWARE_MODULE_TYPE env) = Some db \<and> map_of db item_id = Some obj \<and>
    FirmwareModuleType env obj = Inr validated \<and>
    update_record env validated temp_folder w = (Inr new_obj, w1)"
  then show "snd (update_one env temp_folder item_id w) = w1 \<or>
       (\<exists>r. fmlookup obj ''_rev'' = Some r \<and>
            trace (snd (update_one env temp_folder item_id w)) =
              trace w1 @ [DbWrite (FIRMWARE_MODULE_TYPE env) item_id (fmupd ''_rev'' r new_obj)])"
    by (auto simp: update_one_def server_getitem_def db_getitem_def
        db_setitem_def Let_def split: option.splits)
qed

theorem unchanged_content_no_write_witness:
  "snd (load_item env0 ''firmware_module_type'' svn_record w_store) = w_store \<and>
   snd (update_one env0 ''/tmp/t'' ''m1'' w_store) = w_store"
proof -
  have upd: "update_record env0 stored_svn ''/tmp/t'' w_store = (Inr stored_svn, w_store)"
    by (simp add: update_record_def stored_svn_def svn_record_def)
  have same: "fmdrop ''_rev'' svn_record = fmdrop ''_rev'' stored_svn"
    by (simp add: stored_svn_def fmdrop_fmupd_same)
  show ?thesis
    using unchanged_content_no_write
      [of w_store "''firmware_module_type''" "[(''m1'', stored_svn)]" "''m1''" stored_svn
          svn_record env0 stored_svn stored_svn "''/tmp/t''" stored_svn w_store]
      upd same
    by (simp add: w_store_def env0_def svn_record_def startswith_underscore_def)
qed

section \<open>Loading a fixture twice\<close>

text \<open>Loading a settled item does nothing.\<close>

lemma load_item_settled:
  assumes "settled db_name item w"
  shows "load_item env db_name item w = (Inr (), w)"
  using assms
  by (auto simp: settled_def lookup_doc_def load_item_def server_getitem_def db_contains_def
      db_getitem_def split: option.splits json.splits)

text \<open>What the server stores for an item is the item with the new revision.\<close>

lemma stored_is_item_with_rev:
  assumes "fmlookup item ''_id'' = Some (JStr i)"
  shows "fmupd ''_rev'' r (fmupd ''_id'' (JStr i) (fmupd ''_rev'' r0 item)) = fmupd ''_rev'' r item"
    and "fmupd ''_rev'' r (fmupd ''_id'' (JStr i) item) = fmupd ''_rev'' r item"
  using assms by (auto intro!: fmap_ext)

text \<open>An accepted write changes one document of one database.\<close>

lemma db_setitem_effect:
  assumes "db_setitem env n i content w = (Inr (), w1)"
  shows "lookup_doc w1 n i =
           Some (fmupd ''_rev'' (next_rev env (stored_rev (the (map_of (dbs w) n)) i) content)
                   (fmupd ''_id'' (JStr i) content))"
    and "(n2, i2) \<noteq> (n, i) \<Longrightarrow> lookup_doc w1 n2 i2 = lookup_doc w n2 i2"
    and "db_exists w1 n2 = db_exists w n2"
  using assms
  by (auto simp: db_setitem_def Let_def lookup_doc_def db_exists_def update_conv'
      split: option.splits if_splits)

text \<open>An item that was loaded without an error is settled, and nothing else has changed.\<close>

lemma load_item_effect:
  assumes "load_item env n item w = (Inr (), w1)"
  shows "settled n item w1"
    and "\<exists>i. fmlookup item ''_id'' = Some (JStr i) \<and>
             (\<forall>n2 i2. (n2, i2) \<noteq> (n, i) \<longrightarrow> lookup_doc w1 n2 i2 = lookup_doc w n2 i2)"
    and "db_exists w1 n2 = db_exists w n2"
proof -
  from assms obtain i where i: "fmlookup item ''_id'' = Some (JStr i)"
    by (auto simp: load_item_def split: option.splits json.splits)
  from assms obtain db where db: "map_of (dbs w) n = Some db"
    by (auto simp: load_item_def i server_getitem_def split: option.splits)
  show "settled n item w1"
  proof (cases "map_of db i")
    case None
    with assms i db have "db_setitem env n i item w = (Inr (), w1)"
      by (simp add: load_item_def server_getitem_def db_contains_def)
    from db_setitem_effect(1)[OF this] i show ?thesis
      by (simp add: settled_def stored_is_item_with_rev)
  next
    case (Some old)
    with assms i db obtain r where r: "fmlookup old ''_rev'' = Some r"
      by (auto simp: load_item_def server_getitem_def db_contains_def db_getitem_def
          split: option.splits)
    show ?thesis
    proof (cases "fmupd ''_rev'' r item = old")
      case True
      with assms i db Some r have "w1 = w"
        by (simp add: load_item_def server_getitem_def db_contains_def db_getitem_def)
      with True i db Some r show ?thesis
        by (simp add: settled_def lookup_doc_def)
    next
      case False
      with assms i db Some r have "db_setitem env n i (fmupd ''_rev'' r item) w = (Inr (), w1)"
        by (simp add: load_item_def server_getitem_def db_contains_def db_getitem_def)
      from db_setitem_effect(1)[OF this] i show ?thesis
        by (simp add: settled_def stored_is_item_with_rev)
    qed
  qed
  have frame: "(\<forall>n2 i2. (n2, i2) \<noteq> (n, i) \<longrightarrow> lookup_doc w1 n2 i2 = lookup_doc w n2 i2) \<and>
               db_exists w1 n2 = db_exists w n2"
    using assms i db db_setitem_effect(2,3)
    by (auto simp: load_item_def server_getitem_def db_contains_def db_getitem_def Let_def
        split: option.splits if_splits)
  then show "\<exists>i. fmlookup item ''_id'' = Some (JStr i) \<and>
             (\<forall>n2 i2. (n2, i2) \<noteq> (n, i) \<longrightarrow> lookup_doc w1 n2 i2 = lookup_doc w n2 i2)"
    using i by blast
  from frame show "db_exists w1 n2 = db_exists w n2" by simp
qed

lemma settled_frame:
  assumes "fmlookup item ''_id'' = Some (JStr i)"
    and "lookup_doc w1 n i = lookup_doc w n i"
  shows "settled n item w1 = settled n item w"
  using assms by (simp add: settled_def)

text \<open>The same for the two loops, by induction on the list of items and on the fixture.\<close>

lemma load_items_Cons:
  assumes "load_items env n (item # items) w = (Inr (), w1)"
  obtains w0 where "load_item env n item w = (Inr (), w0)"
    and "load_items env n items w0 = (Inr (), w1)"
proof -
  obtain r w0 where li: "load_item env n item w = (r, w0)"
    by (cases "load_item env n item w")
  with assms have "r = Inr ()" and "load_items env n items w0 = (Inr (), w1)"
    by (cases r; simp)+
  with li that show ?thesis by simp
qed

lemma load_items_exists:
  assumes "load_items env n items w = (Inr (), w1)"
  shows "db_exists w1 n2 = db_exists w n2"
  using assms
proof (induction items arbitrary: w)
  case Nil
  then show ?case by simp
next
  case (Cons item items)
  from Cons.prems obtain w0 where
    first: "load_item env n item w = (Inr (), w0)" and
    rest: "load_items env n items w0 = (Inr (), w1)"
    by (rule load_items_Cons)
  from Cons.IH[OF rest] load_item_effect(3)[OF first] show ?case by simp
qed

lemma load_items_frame:
  assumes "load_items env n items w = (Inr (), w1)"
    and "n2 \<noteq> n \<or> Some (JStr i2) \<notin> (\<lambda>item. fmlookup item ''_id'') ` set items"
  shows "lookup_doc w1 n2 i2 = lookup_doc w n2 i2"
  using assms
proof (induction items arbitrary: w)
  case Nil
  then show ?case by simp
next
  case (Cons item items)
  from Cons.prems(1) obtain w0 where
    first: "load_item env n item w = (Inr (), w0)" and
    rest: "load_items env n items w0 = (Inr (), w1)"
    by (rule load_items_Cons)
  from load_item_effect(2)[OF first] obtain i where
    i: "fmlookup item ''_id'' = Some (JStr i)" and
    fr: "\<forall>n2 i2. (n2, i2) \<noteq> (n, i) \<longrightarrow> lookup_doc w0 n2 i2 = lookup_doc w n2 i2"
    by blast
  from Cons.prems(2) have a: "n2 \<noteq> n \<or> Some (JStr i2) \<notin> (\<lambda>item. fmlookup item ''_id'') ` set items"
    and b: "n2 \<noteq> n \<or> Some (JStr i2) \<noteq> fmlookup item ''_id''"
    by auto
  from b i have "(n2, i2) \<noteq> (n, i)" by auto
  with fr have "lookup_doc w0 n2 i2 = lookup_doc w n2 i2" by blast
  with Cons.IH[OF rest a] show ?case by simp
qed

lemma load_items_settles:
  assumes "load_items env n items w = (Inr (), w1)"
    and "distinct_ids items"
    and "x \<in> set items"
  shows "settled n x w1"
  using assms
proof (induction items arbitrary: w)
  case Nil
  then show ?case by simp
next
  case (Cons item items)
  from Cons.prems(1) obtain w0 where
    first: "load_item env n item w = (Inr (), w0)" and
    rest: "load_items env n items w0 = (Inr (), w1)"
    by (rule load_items_Cons)
  from Cons.prems(2) have d: "distinct_ids items"
    and fresh: "fmlookup item ''_id'' \<notin> (\<lambda>item. fmlookup item ''_id'') ` set items"
    by (simp_all add: distinct_ids_def)
  show ?case
  proof (cases "x = item")
    case True
    from load_item_effect(2)[OF first] obtain i where
      i: "fmlookup item ''_id'' = Some (JStr i)" by blast
    with fresh have "n \<noteq> n \<or> Some (JStr i) \<notin> (\<lambda>item. fmlookup item ''_id'') ` set items"
      by simp
    from load_items_frame[OF rest this] have "lookup_doc w1 n i = lookup_doc w0 n i" .
    from settled_frame[OF i this] load_item_effect(1)[OF first] True show ?thesis by simp
  next
    case False
    with Cons.prems(3) have "x \<in> set items" by simp
    from Cons.IH[OF rest d this] show ?thesis .
  qed
qed

lemma load_dbs_Cons:
  assumes "load_dbs env ((n, items) # fixture) w = (Inr (), w1)"
  obtains w0 where "db_exists w n"
    and "load_items env n items w = (Inr (), w0)"
    and "load_dbs env fixture w0 = (Inr (), w1)"
proof -
  from assms have ex: "db_exists w n"
    by (auto simp: server_getitem_def db_exists_def split: option.splits)
  then have sg: "\<exists>db. server_getitem n w = Inr db"
    by (auto simp: server_getitem_def db_exists_def)
  obtain r w0 where li: "load_items env n items w = (r, w0)"
    by (cases "load_items env n items w")
  with assms sg have "r = Inr ()" and "load_dbs env fixture w0 = (Inr (), w1)"
    by (cases r; auto)+
  with li ex that show ?thesis by simp
qed

lemma load_dbs_exists:
  assumes "load_dbs env fixture w = (Inr (), w1)"
  shows "db_exists w1 n2 = db_exists w n2"
  using assms
proof (induction fixture arbitrary: w)
  case Nil
  then show ?case by simp
next
  case (Cons p fixture)
  obtain n items where p: "p = (n, items)" by (cases p)
  from Cons.prems[unfolded p] obtain w0 where
    first: "load_items env n items w = (Inr (), w0)" and
    rest: "load_dbs env fixture w0 = (Inr (), w1)"
    by (rule load_dbs_Cons)
  from Cons.IH[OF rest] load_items_exists[OF first] show ?case by simp
qed

lemma load_dbs_frame:
  assumes "load_dbs env fixture w = (Inr (), w1)"
    and "n2 \<notin> fst ` set fixture"
  shows "lookup_doc w1 n2 i2 = lookup_doc w n2 i2"
  using assms
proof (induction fixture arbitrary: w)
  case Nil
  then show ?case by simp
next
  case (Cons p fixture)
  obtain n items where p: "p = (n, items)" by (cases p)
  from Cons.prems(1)[unfolded p] obtain w0 where
    first: "load_items env n items w = (Inr (), w0)" and
    rest: "load_dbs env fixture w0 = (Inr (), w1)"
    by (rule load_dbs_Cons)
  from Cons.prems(2) p have a: "n2 \<notin> fst ` set fixture" and b: "n2 \<noteq> n" by auto
  from b have "lookup_doc w0 n2 i2 = lookup_doc w n2 i2"
    by (intro load_items_frame[OF first]) simp
  with Cons.IH[OF rest a] show ?case by simp
qed

lemma load_dbs_settles:
  assumes "load_dbs env fixture w = (Inr (), w1)"
    and "distinct (map fst fixture)"
    and "\<forall>(n, items)\<in>set fixture. distinct_ids items"
    and "(m, xs) \<in> set fixture"
  shows "db_exists w1 m \<and> (\<forall>x\<in>set xs. settled m x w1)"
  using assms
proof (induction fixture arbitrary: w)
  case Nil
  then show ?case by simp
next
  case (Cons p fixture)
  obtain n items where p: "p = (n, items)" by (cases p)
  from Cons.prems(1)[unfolded p] obtain w0 where
    ex: "db_exists w n" and
    first: "load_items env n items w = (Inr (), w0)" and
    rest: "load_dbs env fixture w0 = (Inr (), w1)"
    by (rule load_dbs_Cons)
  from Cons.prems(2,3) p have d: "distinct (map fst fixture)"
    and ds: "\<forall>(n, items)\<in>set fixture. distinct_ids items"
    and di: "distinct_ids items" and fresh: "n \<notin> fst ` set fixture"
    by simp_all
  show ?case
  proof (cases "(m, xs) = (n, items)")
    case True
    have "db_exists w1 n"
      using ex load_items_exists[OF first] load_dbs_exists[OF rest] by simp
    moreover have "\<forall>x\<in>set items. settled n x w1"
    proof
      fix x assume "x \<in> set items"
      from load_items_settles[OF first di this] have s: "settled n x w0" .
      then obtain i where i: "fmlookup x ''_id'' = Some (JStr i)"
        by (auto simp: settled_def split: option.splits json.splits)
      from load_dbs_frame[OF rest fresh] have "lookup_doc w1 n i = lookup_doc w0 n i" .
      from settled_frame[OF i this] s show "settled n x w1" by simp
    qed
    ultimately show ?thesis using True by simp
  next
    case False
    with Cons.prems(4) p have "(m, xs) \<in> set fixture" by auto
    from Cons.IH[OF rest d ds this] show ?thesis .
  qed
qed

text \<open>A run over a store in which every item is settled leaves the world as it is.\<close>

lemma load_items_settled:
  assumes "\<forall>item\<in>set items. settled n item w"
  shows "load_items env n items w = (Inr (), w)"
  using assms by (induction items) (simp_all add: load_item_settled)

lemma load_dbs_settled:
  assumes "\<forall>(n, items)\<in>set fixture. db_exists w n \<and> (\<forall>item\<in>set items. settled n item w)"
  shows "load_dbs env fixture w = (Inr (), w)"
  using assms
proof (induction fixture)
  case Nil
  then show ?case by simp
next
  case (Cons p fixture)
  obtain n items where p: "p = (n, items)" by (cases p)
  from Cons.prems p have ex: "db_exists w n" and st: "\<forall>item\<in>set items. settled n item w"
    and rest: "\<forall>(n, items)\<in>set fixture. db_exists w n \<and> (\<forall>item\<in>set items. settled n item w)"
    by simp_all
  from ex obtain db where "server_getitem n w = Inr db"
    by (auto simp: server_getitem_def db_exists_def)
  with load_items_settled[OF st] Cons.IH[OF rest] p show ?case by simp
qed

text \<open>
  Claim C3, amended. For a fixture whose database names are distinct (it is a dictionary) and in
  which no two items of one database have the same identifier: when a run of
  \<^verbatim>\<open>load_fixture\<close> completes, a second run with the same fixture on the resulting store
  completes and leaves the world as it is, so that it issues no write.
\<close>

theorem load_fixture_idempotent:
  assumes "distinct (map fst fixture)"
    and "\<forall>(n, items)\<in>set fixture. distinct_ids items"
    and "load_fixture env local_url fixture w = (Inr (), w1)"
  shows "load_fixture env local_url fixture w1 = (Inr (), w1)"
proof -
  from assms(3) have chk: "check_for_local_server local_url = Inr ()"
    by (cases "check_for_local_server local_url") (simp_all add: load_fixture_def)
  with assms(3) have run: "load_dbs env fixture w = (Inr (), w1)"
    by (simp add: load_fixture_def)
  have "\<forall>(n, items)\<in>set fixture. db_exists w1 n \<and> (\<forall>item\<in>set items. settled n item w1)"
    using load_dbs_settles[OF run assms(1,2)] by blast
  then have "load_dbs env fixture w1 = (Inr (), w1)" by (rule load_dbs_settled)
  with chk show ?thesis by (simp add: load_fixture_def)
qed

text \<open>Facts about the example fixtures.\<close>

lemma foo_bar: "fmupd ''_rev'' r widget_foo \<noteq> fmupd ''_rev'' r' widget_bar"
proof
  assume "fmupd ''_rev'' r widget_foo = fmupd ''_rev'' r' widget_bar"
  then have "fmlookup (fmupd ''_rev'' r widget_foo) ''name'' = fmlookup (fmupd ''_rev'' r' widget_bar) ''name''"
    by simp
  then show False by (simp add: widget_foo_def widget_bar_def)
qed

lemma norm_bar: "fmupd ''_rev'' r (fmupd ''_id'' (JStr ''a'') (fmupd ''_rev'' r' widget_bar)) = fmupd ''_rev'' r widget_bar"
  by (rule fmap_ext) (simp add: widget_bar_def)

lemma norm_foo: "fmupd ''_rev'' r (fmupd ''_id'' (JStr ''a'') widget_foo) = fmupd ''_rev'' r widget_foo"
  "fmupd ''_rev'' r (fmupd ''_id'' (JStr ''a'') (fmupd ''_rev'' r' widget_foo)) = fmupd ''_rev'' r widget_foo"
  by (rule fmap_ext, simp add: widget_foo_def)+

lemma id_foo: "fmlookup widget_foo ''_id'' = Some (JStr ''a'')" "fmlookup widget_foo ''_rev'' = None"
  by (simp_all add: widget_foo_def)

lemma id_bar: "fmlookup widget_bar ''_id'' = Some (JStr ''a'')" "fmlookup widget_bar ''_rev'' = None"
  by (simp_all add: widget_bar_def)

text \<open>
  Claim C3, as the claim states it, fails: with two items of the same identifier \<^verbatim>\<open>a\<close>
  in one database, the first run ends with the second item stored, and the second run writes
  both items again.
\<close>

theorem load_fixture_twice_counterexample:
  "load_fixture env0 (Some ''http://localhost:5984'') fixture_dup w_widgets = (Inr (), w_dup1) \<and>
   trace (snd (load_fixture env0 (Some ''http://localhost:5984'') fixture_dup w_dup1)) =
     trace w_dup1 @ [DbWrite ''widgets'' ''a'' (fmupd ''_rev'' (JStr ''2-b'') widget_foo),
                     DbWrite ''widgets'' ''a'' (fmupd ''_rev'' (JStr ''2-b'') widget_bar)]"
  by (simp add: load_fixture_def check_for_local_server_def fixture_dup_def w_widgets_def
      load_item_def server_getitem_def db_contains_def db_getitem_def db_setitem_def
      stored_rev_def Let_def env0_def w_dup1_def id_foo id_bar foo_bar foo_bar[symmetric]
      norm_bar norm_foo)

theorem load_fixture_idempotent_witness:
  "load_fixture env0 (Some ''http://localhost:5984'') fixture_one w_one1 = (Inr (), w_one1)"
proof -
  have run: "load_fixture env0 (Some ''http://localhost:5984'') fixture_one w_widgets = (Inr (), w_one1)"
    by (simp add: load_fixture_def check_for_local_server_def fixture_one_def w_widgets_def
        load_item_def server_getitem_def db_contains_def db_getitem_def db_setitem_def
        stored_rev_def Let_def env0_def w_one1_def id_foo norm_foo)
  show ?thesis
    using load_fixture_idempotent
      [of fixture_one env0 "Some ''http://localhost:5984''" w_widgets w_one1, OF _ _ run]
    by (simp add: fixture_one_def distinct_ids_def)
qed

text \<open>
  A first run that ends with an error need not have settled its items: an item that brings a
  revision of its own for a new identifier is rejected, and the next run issues the write again.
\<close>

lemma rejected_write_is_repeated:
  "load_fixture env0 (Some ''http://localhost:5984'') fixture_rev w_widgets =
     (Inl ResourceConflict,
      w_widgets\<lparr>trace := [DbWrite ''widgets'' ''a'' (fmupd ''_rev'' (JStr ''1-a'') widget_foo)]\<rparr>) \<and>
   trace (snd (load_fixture env0 (Some ''http://localhost:5984'') fixture_rev
      (w_widgets\<lparr>trace := [DbWrite ''widgets'' ''a'' (fmupd ''_rev'' (JStr ''1-a'') widget_foo)]\<rparr>))) =
     [DbWrite ''widgets'' ''a'' (fmupd ''_rev'' (JStr ''1-a'') widget_foo),
      DbWrite ''widgets'' ''a'' (fmupd ''_rev'' (JStr ''1-a'') widget_foo)]"
  by (simp add: load_fixture_def check_for_local_server_def fixture_rev_def w_widgets_def
      load_item_def server_getitem_def db_contains_def db_getitem_def db_setitem_def
      stored_rev_def Let_def env0_def id_foo)

section \<open>The scratch directory of update_module_types\<close>

text \<open>When the batch completes, the scratch directory has been removed.\<close>

lemma update_module_types_completed:
  assumes "update_module_types env w = (Inr (), w1)"
  shows "mkdtemp_name env (fs w) \<notin> set (dirs (fs w1))"
  using assms
  by (auto simp: update_module_types_def mkdtemp_def rmtree_def Let_def under_def
      split: sum.splits prod.splits if_splits)

text \<open>
  Claim C4 does not hold of the code. With one git record whose clone fails, the batch ends
  with the \<^verbatim>\<open>IOError\<close> of the manifest read: the trace has the \<^verbatim>\<open>mkdtemp\<close>, the
  clone and the open, and no \<^verbatim>\<open>rmtree\<close>, and the scratch directory is still there.
\<close>

theorem scratch_directory_left_behind:
  "fst (update_module_types env0 w_git) = Inl IOError \<and>
   trace (snd (update_module_types env0 w_git)) =
     [Mkdtemp ''/tmp/tmpA'', Subprocess git_argv ''/tmp/tmpA'',
      OpenFile ''/tmp/tmpA/y/module.json''] \<and>
   ''/tmp/tmpA'' \<in> set (dirs (fs (snd (update_module_types env0 w_git))))"
  by (simp add: update_module_types_def server_getitem_def env0_def w_git_def mkdtemp_def
      update_one_def startswith_underscore_def db_getitem_def update_record_def git_record_def
      clone_and_merge_def load_json_def path_join_def git_argv_def Let_def)

section \<open>Properties of init\<close>

text \<open>
  Claim C9. When the configuration store holds a local server URL that is not empty and is not
  \<^verbatim>\<open>db_url\<close>, \<^verbatim>\<open>init\<close> ends with a \<^verbatim>\<open>ClickException\<close> that names the old
  URL, and the world is as it was: the server state, the configuration store and the log of
  effects (no configuration write, no database created) are unchanged.
\<close>

theorem init_refuses_other_server:
  assumes "local_server_url (cfg w) = Some old"
    and "old \<noteq> []"
    and "old \<noteq> db_url"
  shows "init env db_url api_url w = (Inl (ClickException (already_initialized old)), w)"
  using assms by (simp add: init_def truthy_def)

theorem init_refuses_other_server_witness:
  "init (example_env (Inr 200)) ''http://localhost:5984'' None iw_other =
     (Inl (ClickException (already_initialized ''http://db.example:5984'')), iw_other)"
  using init_refuses_other_server
    [of iw_other "''http://db.example:5984''" "''http://localhost:5984''" "example_env (Inr 200)" None]
  by (simp add: iw_other_def)

text \<open>
  Claim C6, as the claim states it, fails: a write that ends with an exception of the server is
  the one write for its parameter, and no pause follows it.
\<close>

theorem no_pause_counterexample:
  "apply_config_item (example_env (Inl ServerError)) (''httpd'', ''bind_address'', ''0.0.0.0'') iw_empty =
     (Inl ServerError,
      iw_empty\<lparr>log := [ConfigPut ''httpd'' ''bind_address'' (desired_val ''0.0.0.0'')]\<rparr>)"
  by (simp add: apply_config_item_def example_env_def iw_empty_def Let_def)

text \<open>
  Claim C6, amended. For a configuration parameter whose current value on the server (the body
  of the GET without the white space around it) is the desired value, nothing happens: no
  write, the world stays as it is. When the current value differs or there is none, exactly one
  write is made for the parameter, with the desired value, and the pause of one second follows
  it when the write returns the status 200.
\<close>

theorem apply_config_item_writes:
  "(config_get env section param (couch w) = Inr body \<and> strip body = desired_val val \<longrightarrow>
      apply_config_item env (section, param, val) w = (Inr (), w)) \<and>
   (config_get env section param (couch w) = Inr body \<and> strip body \<noteq> desired_val val \<or>
    config_get env section param (couch w) = Inl ResourceNotFound \<longrightarrow>
      log (snd (apply_config_item env (section, param, val) w)) =
        log w @ [ConfigPut section param (desired_val val)] @
          (if fst (config_put env section param (desired_val val) (couch w)) = Inr 200
           then [Sleep 1] else []))"
  by (auto simp: apply_config_item_def Let_def split: prod.splits sum.splits)

theorem apply_config_item_writes_witness:
  "apply_config_item (example_env (Inr 200)) (''httpd'', ''port'', ''5984'') iw0 = (Inr (), iw0) \<and>
   log (snd (apply_config_item (example_env (Inr 200)) (''httpd'', ''bind_address'', ''0.0.0.0'') iw0)) =
     [ConfigPut ''httpd'' ''bind_address'' (desired_val ''0.0.0.0''), Sleep 1]"
proof -
  have "strip ([CHR 0x22] @ ''5984'' @ [CHR 0x22, CHR 0x0A]) = desired_val ''5984''"
    by (simp add: strip_def desired_val_def is_space_def)
  then show ?thesis
    using apply_config_item_writes
      [of "example_env (Inr 200)" "''httpd''" "''port''" iw0
          "[CHR 0x22] @ ''5984'' @ [CHR 0x22, CHR 0x0A]" "''5984''"]
      apply_config_item_writes
      [of "example_env (Inr 200)" "''httpd''" "''bind_address''" iw0 "[]" "''0.0.0.0''"]
    by (simp add: example_env_def iw0_def)
qed

text \<open>
  Claim C8 does not hold of the code. With two parameters to write and a server that answers
  the first PUT with the status 201, \<^verbatim>\<open>init\<close> ends with \<^verbatim>\<open>NameError\<close>: no
  \<^verbatim>\<open>ClickException\<close> is reported, and the second parameter is not written.
\<close>

theorem failed_write_ends_init:
  "init (example_env (Inr 201)) ''http://localhost:5984'' None iw_empty =
     (Inl (NameError ''res''),
      iw_empty\<lparr>couch := [((''httpd'', ''bind_address''), desired_val ''0.0.0.0'' @ [CHR 0x0A])],
                log := [ConfigPut ''httpd'' ''bind_address'' (desired_val ''0.0.0.0'')]\<rparr>)"
  by (simp add: init_def truthy_def apply_config_item_def example_env_def iw_empty_def Let_def)

end
